theory Spec2Isabelle
  imports Complex_Main
begin

section \<open>The G-code back end of rpt2pnp (gcode-machine.cc)\<close>

text \<open>
  \<^verbatim>\<open>GCodeMachine\<close> turns pick, place and dispense requests into G-code that it prints
  on the standard output; diagnostics go to the standard error stream.

  Conventions of the embedding.
  \<^item> C++ \<^verbatim>\<open>float\<close> and \<^verbatim>\<open>double\<close> values are real numbers: arithmetic is exact, rounding
    and non-finite values are not part of the model.
  \<^item> A call \<^verbatim>\<open>printf(fmt, a1, ..., an)\<close> appends the pair of the format string and the
    argument list to the stream; the rendering of the conversions (\<^verbatim>\<open>%.3f\<close>, ...) to
    characters is not modelled.
  \<^item> A pointer is an \<open>option\<close>: \<open>None\<close> is \<^verbatim>\<open>NULL\<close>. A \<^verbatim>\<open>Tape *\<close> is the address of a
    Tape object in a store, since tapes are shared between the configuration and
    the callers. Dereferencing the \<^verbatim>\<open>NULL\<close> configuration is the fault \<open>NullConfig\<close>:
    the C++ program has no defined behaviour there.
\<close>

subsection \<open>Data (board.h, tape.h, pnp-config.h as used by gcode-machine.cc)\<close>

text \<open>Positions, dimensions, pads and parts, with the members that gcode-machine.cc
  reads.\<close>

record Position =
  pos_x :: real
  pos_y :: real

record Dimension =
  dim_w :: real
  dim_h :: real

record Pad =
  pad_name :: string
  pad_pos :: Position
  pad_size :: Dimension

record Part =
  part_component_name :: string
  part_value :: string
  part_footprint :: string
  part_pos :: Position
  part_angle :: real

text \<open>
  Modelled from the spec: class Tape (tape.h, tape.cc), whose declaration and code are
  not in gcode-machine.cc. A tape is a supply reel with a fixed height above the bed, a
  fixed reel angle and a cursor over its supply positions.
\<close>

record Tape =
  tape_height :: real
  tape_angle :: real
  tape_slots :: "(real \<times> real) list"
  tape_cursor :: nat

definition height :: "Tape \<Rightarrow> real" where
  "height t = tape_height t"

definition angle :: "Tape \<Rightarrow> real" where
  "angle t = tape_angle t"

text \<open>
  Modelled from the spec: \<^verbatim>\<open>Tape::GetPos\<close>, the next-position query. It returns the
  position under the cursor and advances the cursor; on an exhausted tape it fails and
  changes nothing. The result is the position (\<open>None\<close> for \<^verbatim>\<open>false\<close>) and the tape
  after the query.
\<close>

definition GetPos :: "Tape \<Rightarrow> (real \<times> real) option \<times> Tape" where
  "GetPos t =
     (if tape_cursor t < length (tape_slots t)
      then (Some (tape_slots t ! tape_cursor t), t\<lparr>tape_cursor := tape_cursor t + 1\<rparr>)
      else (None, t))"

text \<open>The board and the configuration, with the members that gcode-machine.cc reads.\<close>

record Board =
  board_top :: real
  board_origin :: Position

text \<open>\<^verbatim>\<open>tape_for_component\<close> is a \<^verbatim>\<open>std::map\<close> from a component key to a \<^verbatim>\<open>Tape *\<close>: an
  association list of keys and tape addresses, in iteration order.\<close>

record PnPConfig =
  cfg_board :: Board
  cfg_bed_level :: real
  cfg_tape_for_component :: "(string \<times> nat) list"

subsection \<open>Constants and templates\<close>

definition Z_HOVERING :: real where
  "Z_HOVERING = 10"

definition TAPE_THICK :: real where
  "TAPE_THICK = 0"

definition ANGLE_FACTOR :: real where
  "ANGLE_FACTOR = 50.34965 / 360"

definition TO_TAPE_SPEED :: int where
  "TO_TAPE_SPEED = 1000"

definition TO_BOARD_SPEED :: int where
  "TO_BOARD_SPEED = 100"

definition Z_DISPENSING_ABOVE :: real where
  "Z_DISPENSING_ABOVE = 0.3"

definition Z_HOVER_ABOVE :: real where
  "Z_HOVER_ABOVE = 2"

definition Z_SEPARATE_DROPLET_ABOVE :: real where
  "Z_SEPARATE_DROPLET_ABOVE = 5"

definition gcode_preamble :: string where
  "gcode_preamble =
     ''\<newline>'' @
     ''G28 X0 Y0  ; Home (x/y) - needle over free space\<newline>'' @
     ''G28 Z0     ; Now it is safe to home z\<newline>'' @
     ''G21        ; set to mm\<newline>'' @
     ''T1         ; Use E1 extruder, our 'A' axis.\<newline>'' @
     ''M302       ; cold extrusion override - because it is not actually an extruder.\<newline>'' @
     ''G90        ; Use absolute positions in general.\<newline>'' @
     ''G92 E0     ; 'home' E axis\<newline>'' @
     ''\<newline>'' @
     ''G1 Z%.1f E0 ; Move needle out of way\<newline>''"

definition gcode_pick :: string where
  "gcode_pick =
     ''\<newline>'' @
     '';; -- Pick %s\<newline>'' @
     ''G0 F%d X%.3f Y%.3f Z%.3f E%.3f ; Move over component to pick.\<newline>'' @
     ''G1 Z%-6.2f   F4000 ; move down on tape.\<newline>'' @
     ''G4           ; flush buffer\<newline>'' @
     ''M42 P6 S255  ; turn on suckage\<newline>'' @
     ''G1 Z%-6.3f   ; Move up a bit for travelling\<newline>''"

definition gcode_place :: string where
  "gcode_place =
     ''\<newline>'' @
     '';; -- Place %s\<newline>'' @
     ''G0 F%d X%.3f Y%.3f Z%.3f E%.3f ; Move component to place on board.\<newline>'' @
     ''G1 Z%-6.3f F4000 ; move down over board thickness.\<newline>'' @
     ''G4            ; flush buffer.\<newline>'' @
     ''M42 P6 S0     ; turn off suckage\<newline>'' @
     ''G4            ; flush buffer.\<newline>'' @
     ''M42 P8 S255   ; blow\<newline>'' @
     ''G4 P40        ; .. for 40ms\<newline>'' @
     ''M42 P8 S0     ; done.\<newline>'' @
     ''G1 Z%-6.2f    ; Move up\<newline>''"

definition gcode_dispense_move :: string where
  "gcode_dispense_move =
     ''\<newline>'' @
     '';; -- component %s, pad %s\<newline>'' @
     ''G0 X%.3f Y%.3f Z%.3f   ; move there.''"

definition gcode_dispense_paste :: string where
  "gcode_dispense_paste =
     ''\<newline>'' @
     ''G1 Z%.2f ; Go down to dispense\<newline>'' @
     ''M106      ; switch on fan (=solenoid)\<newline>'' @
     ''G4 P%-5.1f ; Wait time dependent on area %.2f mm^2\<newline>'' @
     ''M107      ; switch off solenoid\<newline>'' @
     ''G1 Z%.2f ; high above to have paste separated\<newline>''"

definition gcode_finish :: string where
  "gcode_finish =
     ''\<newline>'' @
     ''G28 X0 Y0  ; Home x/y, but leave z clear\<newline>'' @
     ''M84        ; stop motors\<newline>''"

subsection \<open>The C library: printf arguments and fmod\<close>

datatype arg = AStr string | AInt int | ADbl real

type_synonym emission = "string \<times> arg list"

text \<open>\<^verbatim>\<open>fmod(a, b)\<close> is \<open>a - n * b\<close> where \<open>n\<close> is \<open>a / b\<close> with its fractional part cut off
  (rounded towards zero), so the result has the sign of \<open>a\<close>. Only \<open>b = 360\<close> occurs.\<close>

definition trunc :: "real \<Rightarrow> int" where
  "trunc q = (if 0 \<le> q then \<lfloor>q\<rfloor> else - \<lfloor>- q\<rfloor>)"

definition fmod :: "real \<Rightarrow> real \<Rightarrow> real" where
  "fmod a b = a - of_int (trunc (a / b)) * b"

subsection \<open>The machine and its environment\<close>

datatype fault = NullConfig

text \<open>The members of the \<^verbatim>\<open>GCodeMachine\<close> object (\<open>m_init_ms\<close>, \<open>m_area_ms\<close> and
  \<open>m_config\<close> for \<^verbatim>\<open>init_ms_\<close>, \<^verbatim>\<open>area_ms_\<close> and \<^verbatim>\<open>config_\<close>), the two output streams
  of the process, and the store of Tape objects.\<close>

record state =
  m_init_ms :: real
  m_area_ms :: real
  m_config :: "PnPConfig option"
  stdout :: "emission list"
  stderr :: "emission list"
  tapes :: "nat \<Rightarrow> Tape"

text \<open>The constructor, in an environment with the given streams and tapes.\<close>

definition GCodeMachine ::
  "real \<Rightarrow> real \<Rightarrow> emission list \<Rightarrow> emission list \<Rightarrow> (nat \<Rightarrow> Tape) \<Rightarrow> state" where
  "GCodeMachine init_ms area_ms out err store =
     \<lparr>m_init_ms = init_ms, m_area_ms = area_ms, m_config = None,
      stdout = out, stderr = err, tapes = store\<rparr>"

definition Init :: "state \<Rightarrow> PnPConfig option \<Rightarrow> string \<Rightarrow> Dimension \<Rightarrow> bool \<times> state" where
  "Init s config init_comment board_dim =
     (let s1 = s\<lparr>m_config := config\<rparr> in
      case m_config s1 of
        None \<Rightarrow> (False, s1\<lparr>stderr := stderr s1 @ [(''Need configuration\<newline>'', [])]\<rparr>)
      | Some c \<Rightarrow>
          let s2 = s1\<lparr>stderr := stderr s1 @
                     [(''Board-thickness = %.1fmm\<newline>'',
                       [ADbl (board_top (cfg_board c) - cfg_bed_level c)])]\<rparr>;
              s3 = s2\<lparr>stdout := stdout s2 @ [(''; %s\<newline>'', [AStr init_comment])]\<rparr>;
              highest_tape =
                fold (\<lambda>t highest. max highest (height (tapes s3 (snd t))))
                  (cfg_tape_for_component c) (board_top (cfg_board c))
          in (True, s3\<lparr>stdout := stdout s3 @ [(gcode_preamble, [ADbl (highest_tape + 10)])]\<rparr>))"

definition PickPart :: "state \<Rightarrow> Part \<Rightarrow> nat option \<Rightarrow> fault + state" where
  "PickPart s part tape =
     (case tape of
        None \<Rightarrow> Inr s
      | Some a \<Rightarrow>
          (case GetPos (tapes s a) of
             (None, t) \<Rightarrow>
               Inr (s\<lparr>tapes := (tapes s)(a := t),
                      stderr := stderr s @
                        [(''We are out of components for %s %s\<newline>'',
                          [AStr (part_footprint part), AStr (part_value part)])]\<rparr>)
           | (Some (px, py), t) \<Rightarrow>
               let s1 = s\<lparr>tapes := (tapes s)(a := t)\<rparr> in
               (case m_config s1 of
                  None \<Rightarrow> Inl NullConfig
                | Some c \<Rightarrow>
                    let board_thick = board_top (cfg_board c) - cfg_bed_level c;
                        travel_height = height (tapes s1 a) + board_thick + Z_HOVERING;
                        print_name = part_component_name part @ '' ('' @
                          part_footprint part @ ''@'' @ part_value part @ '')''
                    in Inr (s1\<lparr>stdout := stdout s1 @
                         [(gcode_pick,
                           [AStr print_name,
                            AInt (60 * TO_TAPE_SPEED),
                            ADbl px, ADbl py, ADbl (height (tapes s1 a) + Z_HOVERING),
                            ADbl (ANGLE_FACTOR * fmod (angle (tapes s1 a)) 360),
                            ADbl (height (tapes s1 a)),
                            ADbl travel_height])]\<rparr>))))"

definition PlacePart :: "state \<Rightarrow> Part \<Rightarrow> nat option \<Rightarrow> fault + state" where
  "PlacePart s part tape =
     (case tape of
        None \<Rightarrow> Inr s
      | Some a \<Rightarrow>
          (case m_config s of
             None \<Rightarrow> Inl NullConfig
           | Some c \<Rightarrow>
               let board_thick = board_top (cfg_board c) - cfg_bed_level c;
                   travel_height = height (tapes s a) + board_thick + Z_HOVERING;
                   print_name = part_component_name part @ '' ('' @
                     part_footprint part @ ''@'' @ part_value part @ '')''
               in Inr (s\<lparr>stdout := stdout s @
                    [(gcode_place,
                      [AStr print_name,
                       AInt (60 * TO_BOARD_SPEED),
                       ADbl (pos_x (part_pos part) + pos_x (board_origin (cfg_board c))),
                       ADbl (pos_y (part_pos part) + pos_y (board_origin (cfg_board c))),
                       ADbl travel_height,
                       ADbl (ANGLE_FACTOR *
                            fmod (part_angle part - angle (tapes s a) + 360) 360),
                       ADbl (height (tapes s a) + board_thick - TAPE_THICK),
                       ADbl travel_height])]\<rparr>)))"

definition Dispense :: "state \<Rightarrow> Part \<Rightarrow> Pad \<Rightarrow> fault + state" where
  "Dispense s part pad =
     (let theta = 2 * pi * part_angle part / 360 in
      case m_config s of
        None \<Rightarrow> Inl NullConfig
      | Some c \<Rightarrow>
          let part_x = pos_x (board_origin (cfg_board c)) + pos_x (part_pos part);
              part_y = pos_y (board_origin (cfg_board c)) + pos_y (part_pos part);
              area = dim_w (pad_size pad) * dim_h (pad_size pad);
              pad_x = pos_x (pad_pos pad);
              pad_y = pos_y (pad_pos pad);
              x = part_x + pad_x * cos theta - pad_y * sin theta;
              y = part_y + pad_x * sin theta + pad_y * cos theta;
              s1 = s\<lparr>stdout := stdout s @
                     [(gcode_dispense_move,
                       [AStr (part_component_name part), AStr (pad_name pad),
                        ADbl x, ADbl y, ADbl (board_top (cfg_board c) + Z_HOVER_ABOVE)])]\<rparr>
          in Inr (s1\<lparr>stdout := stdout s1 @
               [(gcode_dispense_paste,
                 [ADbl (board_top (cfg_board c) + Z_DISPENSING_ABOVE),
                  ADbl (m_init_ms s1 + area * m_area_ms s1), ADbl area,
                  ADbl (board_top (cfg_board c) + Z_SEPARATE_DROPLET_ABOVE)])]\<rparr>))"

definition Finish :: "state \<Rightarrow> state" where
  "Finish s = s\<lparr>stdout := stdout s @ [(gcode_finish, [])]\<rparr>"

subsection \<open>Sequences of calls\<close>

text \<open>A client calls the operations one after the other; a fault ends the run.\<close>

datatype operation =
    OpPick Part "nat option"
  | OpPlace Part "nat option"
  | OpDispense Part Pad
  | OpFinish

fun step :: "state \<Rightarrow> operation \<Rightarrow> fault + state" where
  "step s (OpPick part tape) = PickPart s part tape"
| "step s (OpPlace part tape) = PlacePart s part tape"
| "step s (OpDispense part pad) = Dispense s part pad"
| "step s OpFinish = Inr (Finish s)"

fun run :: "state \<Rightarrow> operation list \<Rightarrow> fault + state" where
  "run s [] = Inr s"
| "run s (c # cs) = (case step s c of Inl f \<Rightarrow> Inl f | Inr s' \<Rightarrow> run s' cs)"

subsection \<open>Observations used in the statements\<close>

text \<open>What a call printed on the standard output: the emissions of the state after the
  call that the state before it did not have.\<close>

definition emitted :: "state \<Rightarrow> state \<Rightarrow> emission list" where
  "emitted s s' = drop (length (stdout s)) (stdout s')"

text \<open>The state without its diagnostics stream.\<close>

definition silent :: "state \<Rightarrow> state" where
  "silent s = s\<lparr>stderr := []\<rparr>"

text \<open>The mathematical modulus of the specification, with a result in \<open>[0, 360)\<close>.\<close>

definition mod360 :: "real \<Rightarrow> real" where
  "mod360 a = a - 360 * of_int \<lfloor>a / 360\<rfloor>"

text \<open>The rotation argument of a pick or place block: the value of the \<^verbatim>\<open>E\<close> word, the
  sixth argument of \<open>gcode_pick\<close> and of \<open>gcode_place\<close>.\<close>

definition rotation_of :: "emission \<Rightarrow> arg" where
  "rotation_of e = snd e ! 5"


text \<open>The commands of a G-code text: its lines, without comments (from \<open>;\<close> to the end
  of the line), without trailing blanks, empty lines left out.\<close>

fun split_lines :: "string \<Rightarrow> string list" where
  "split_lines [] = [[]]"
| "split_lines (c # cs) =
     (if c = CHR 0x0A then [] # split_lines cs
      else (case split_lines cs of [] \<Rightarrow> [[c]] | l # ls \<Rightarrow> (c # l) # ls))"

definition rstrip :: "string \<Rightarrow> string" where
  "rstrip l = rev (dropWhile (\<lambda>c. c = CHR '' '') (rev l))"

definition commands :: "string \<Rightarrow> string list" where
  "commands t =
     filter (\<lambda>l. l \<noteq> [])
       (map (\<lambda>l. rstrip (takeWhile (\<lambda>c. c \<noteq> CHR '';'') l)) (split_lines t))"

subsection \<open>A small board\<close>

definition ex_tape :: Tape where
  "ex_tape = \<lparr>tape_height = 5, tape_angle = 350,
              tape_slots = [(100, 20), (104, 20)], tape_cursor = 0\<rparr>"

definition ex_config :: PnPConfig where
  "ex_config =
     \<lparr>cfg_board = \<lparr>board_top = 6, board_origin = \<lparr>pos_x = 10, pos_y = 20\<rparr>\<rparr>,
      cfg_bed_level = 5,
      cfg_tape_for_component = [(''0805@100n'', 1)]\<rparr>"

definition ex_part :: Part where
  "ex_part =
     \<lparr>part_component_name = ''C1'', part_value = ''100n'', part_footprint = ''0805'',
      part_pos = \<lparr>pos_x = 3, pos_y = 4\<rparr>, part_angle = 30\<rparr>"

definition ex_pad :: Pad where
  "ex_pad = \<lparr>pad_name = ''1'', pad_pos = \<lparr>pos_x = 2, pos_y = 0\<rparr>,
             pad_size = \<lparr>dim_w = 1, dim_h = 2\<rparr>\<rparr>"

text \<open>A machine before \<open>Init\<close>, with every address holding the tape \<open>t\<close>, and the same
  machine with the configuration stored.\<close>

definition ex_fresh :: "Tape \<Rightarrow> state" where
  "ex_fresh t = GCodeMachine 50 25 [] [] (\<lambda>a. t)"

definition ex_ready :: "Tape \<Rightarrow> state" where
  "ex_ready t = (ex_fresh t)\<lparr>m_config := Some ex_config\<rparr>"

section \<open>Properties\<close>

subsection \<open>The operations, case by case\<close>

lemma GetPos_None: "fst (GetPos t) = None \<Longrightarrow> GetPos t = (None, t)"
  by (simp add: GetPos_def split: if_splits)

lemma GetPos_Some:
  "GetPos t = (Some p, t') \<Longrightarrow>
     t' = t\<lparr>tape_cursor := Suc (tape_cursor t)\<rparr> \<and> height t' = height t \<and> angle t' = angle t"
  by (auto simp add: GetPos_def height_def angle_def split: if_splits)

lemmas ex_defs = ex_tape_def ex_config_def ex_part_def ex_pad_def ex_fresh_def ex_ready_def
  GCodeMachine_def

lemma PickPart_exhausted:
  assumes "fst (GetPos (tapes s a)) = None"
  shows "PickPart s part (Some a) =
           Inr (s\<lparr>stderr := stderr s @
                  [(''We are out of components for %s %s\<newline>'',
                    [AStr (part_footprint part), AStr (part_value part)])]\<rparr>)"
  using GetPos_None [OF assms] by (simp add: PickPart_def)

lemma PickPart_success:
  assumes "GetPos (tapes s a) = (Some (px, py), t)" and "m_config s = Some c"
  shows "PickPart s part (Some a) =
           Inr (s\<lparr>tapes := (tapes s)(a := t),
                  stdout := stdout s @
                    [(gcode_pick,
                      [AStr (part_component_name part @ '' ('' @
                             part_footprint part @ ''@'' @ part_value part @ '')''),
                       AInt 60000,
                       ADbl px, ADbl py, ADbl (height (tapes s a) + 10),
                       ADbl (ANGLE_FACTOR * fmod (angle (tapes s a)) 360),
                       ADbl (height (tapes s a)),
                       ADbl (height (tapes s a) +
                             (board_top (cfg_board c) - cfg_bed_level c) + 10)])]\<rparr>)"
  using assms GetPos_Some [OF assms(1)]
  by (simp add: PickPart_def Let_def Z_HOVERING_def TO_TAPE_SPEED_def height_def angle_def)

lemma PickPart_unconfigured:
  assumes "GetPos (tapes s a) = (Some p, t)" and "m_config s = None"
  shows "PickPart s part (Some a) = Inl NullConfig"
  using assms by (cases p) (simp add: PickPart_def)

lemma PlacePart_configured:
  assumes "m_config s = Some c"
  shows "PlacePart s part (Some a) =
           Inr (s\<lparr>stdout := stdout s @
                  [(gcode_place,
                    [AStr (part_component_name part @ '' ('' @
                           part_footprint part @ ''@'' @ part_value part @ '')''),
                     AInt 6000,
                     ADbl (pos_x (part_pos part) + pos_x (board_origin (cfg_board c))),
                     ADbl (pos_y (part_pos part) + pos_y (board_origin (cfg_board c))),
                     ADbl (height (tapes s a) +
                           (board_top (cfg_board c) - cfg_bed_level c) + 10),
                     ADbl (ANGLE_FACTOR *
                           fmod (part_angle part - angle (tapes s a) + 360) 360),
                     ADbl (height (tapes s a) +
                           (board_top (cfg_board c) - cfg_bed_level c)),
                     ADbl (height (tapes s a) +
                           (board_top (cfg_board c) - cfg_bed_level c) + 10)])]\<rparr>)"
  using assms
  by (simp add: PlacePart_def Let_def Z_HOVERING_def TO_BOARD_SPEED_def TAPE_THICK_def)

lemma Dispense_configured:
  assumes "m_config s = Some c"
  shows "Dispense s part pad =
           Inr (s\<lparr>stdout := stdout s @
                  [(gcode_dispense_move,
                    [AStr (part_component_name part), AStr (pad_name pad),
                     ADbl (pos_x (board_origin (cfg_board c)) + pos_x (part_pos part) +
                           pos_x (pad_pos pad) * cos (2 * pi * part_angle part / 360) -
                           pos_y (pad_pos pad) * sin (2 * pi * part_angle part / 360)),
                     ADbl (pos_y (board_origin (cfg_board c)) + pos_y (part_pos part) +
                           pos_x (pad_pos pad) * sin (2 * pi * part_angle part / 360) +
                           pos_y (pad_pos pad) * cos (2 * pi * part_angle part / 360)),
                     ADbl (board_top (cfg_board c) + 2)]),
                   (gcode_dispense_paste,
                    [ADbl (board_top (cfg_board c) + 0.3),
                     ADbl (m_init_ms s +
                           dim_w (pad_size pad) * dim_h (pad_size pad) * m_area_ms s),
                     ADbl (dim_w (pad_size pad) * dim_h (pad_size pad)),
                     ADbl (board_top (cfg_board c) + 5)])]\<rparr>)"
  using assms
  by (simp add: Dispense_def Let_def Z_HOVER_ABOVE_def Z_DISPENSING_ABOVE_def
      Z_SEPARATE_DROPLET_ABOVE_def)

lemma fold_max_Max:
  "fold (\<lambda>t highest. max highest (f t)) ts (h :: real) = Max (insert h (f ` set ts))"
proof (induction ts arbitrary: h)
  case Nil
  show ?case by simp
next
  case (Cons t ts)
  have "Max (insert (max h (f t)) (f ` set ts)) = Max (insert h (insert (f t) (f ` set ts)))"
    by (cases "set ts = {}") (simp_all add: max.assoc)
  with Cons show ?case by simp
qed

subsection \<open>Runs\<close>

text \<open>No operation reads the error stream, and none changes the stored configuration.\<close>

lemma step_silent: "map_sum id silent (step (silent s) c) = map_sum id silent (step s c)"
  by (cases c)
    (simp_all add: PickPart_def PlacePart_def Dispense_def Finish_def silent_def Let_def
      split: option.splits prod.splits)

lemma run_silent: "map_sum id silent (run (silent s) cs) = map_sum id silent (run s cs)"
proof (induction cs arbitrary: s)
  case Nil
  show ?case by (simp add: silent_def)
next
  case (Cons c cs)
  show ?case
  proof (cases "step s c")
    case (Inl f)
    with step_silent [of s c] show ?thesis by (auto simp: map_sum_def split: sum.splits)
  next
    case (Inr s1)
    with step_silent [of s c] obtain s2 where
      s2: "step (silent s) c = Inr s2" "silent s2 = silent s1"
      by (cases "step (silent s) c") auto
    have "map_sum id silent (run s2 cs) = map_sum id silent (run (silent s2) cs)"
      by (rule Cons.IH [symmetric])
    also have "\<dots> = map_sum id silent (run (silent s1) cs)"
      by (simp only: s2(2))
    also have "\<dots> = map_sum id silent (run s1 cs)"
      by (rule Cons.IH)
    finally have "map_sum id silent (run s2 cs) = map_sum id silent (run s1 cs)" .
    with Inr s2(1) show ?thesis by (simp only: run.simps sum.case)
  qed
qed

lemma run_stderr: "map_sum id silent (run (s\<lparr>stderr := e\<rparr>) cs) = map_sum id silent (run s cs)"
  using run_silent [of "s\<lparr>stderr := e\<rparr>" cs] run_silent [of s cs]
  by (simp add: silent_def)

lemma step_configured:
  assumes "m_config s = Some c"
  shows "\<exists>s'. step s x = Inr s' \<and> m_config s' = Some c"
proof (cases x)
  case (OpPick part tape)
  show ?thesis
  proof (cases tape)
    case None
    with OpPick assms show ?thesis by (simp add: PickPart_def)
  next
    case (Some a)
    show ?thesis
    proof (cases "fst (GetPos (tapes s a))")
      case None
      with OpPick Some assms show ?thesis by (simp add: PickPart_exhausted)
    next
      case (Some p)
      then obtain px py t where "GetPos (tapes s a) = (Some (px, py), t)"
        by (cases "GetPos (tapes s a)"; cases p) auto
      from PickPart_success [OF this assms] OpPick \<open>tape = Some a\<close> assms
      show ?thesis by simp
    qed
  qed
next
  case (OpPlace part tape)
  with assms show ?thesis
    by (cases tape) (simp_all add: PlacePart_configured, simp add: PlacePart_def)
next
  case (OpDispense part pad)
  with assms show ?thesis by (simp add: Dispense_configured)
next
  case OpFinish
  with assms show ?thesis by (simp add: Finish_def)
qed

lemma run_configured:
  "m_config s = Some c \<Longrightarrow> \<exists>s'. run s xs = Inr s' \<and> m_config s' = Some c"
proof (induction xs arbitrary: s)
  case Nil
  then show ?case by simp
next
  case (Cons x xs)
  from step_configured [OF Cons.prems, of x] obtain s1 where
    "step s x = Inr s1" "m_config s1 = Some c" by blast
  with Cons.IH [of s1] show ?case by simp
qed

subsection \<open>The C remainder and the modulus\<close>

lemma mod360_range: "0 \<le> mod360 a \<and> mod360 a < 360"
proof -
  define n where "n = \<lfloor>a / 360\<rfloor>"
  have "of_int n \<le> a / 360" and "a / 360 < of_int n + 1"
    unfolding n_def by linarith+
  then have "360 * of_int n \<le> a" and "a < 360 * of_int n + 360"
    by (simp_all add: field_simps)
  then show ?thesis unfolding mod360_def n_def [symmetric] by simp
qed

lemma fmod_nonneg: "0 \<le> a \<Longrightarrow> fmod a 360 = mod360 a"
  by (simp add: fmod_def trunc_def mod360_def)

lemma fmod_neg: "a < 0 \<Longrightarrow> fmod a 360 = - mod360 (- a)"
  by (simp add: fmod_def trunc_def mod360_def)

lemma fmod_bounds: "- 360 < fmod a 360 \<and> fmod a 360 < 360"
proof (cases "0 \<le> a")
  case True
  then show ?thesis using mod360_range [of a] by (simp add: fmod_nonneg)
next
  case False
  then show ?thesis using mod360_range [of "- a"] by (simp add: fmod_neg)
qed

subsection \<open>Placement angle (C1)\<close>

text \<open>
  C1, as amended. With a configuration stored and a non-null tape, \<open>PlacePart\<close> emits one
  place block, and when \<open>part.angle - tape.angle + 360\<close> is not negative the rotation
  written into it is \<open>ANGLE_FACTOR\<close> times \<open>(part.angle - tape.angle + 360) mod 360\<close>,
  the mathematical modulus, which lies in \<open>[0, 360)\<close>. The code takes the remainder
  with \<^verbatim>\<open>fmod\<close>, which agrees with the modulus on that range only.
\<close>

theorem place_rotation:
  assumes "m_config s = Some c" and "0 \<le> part_angle part - angle (tapes s a) + 360"
  shows "map_sum id (map rotation_of \<circ> emitted s) (PlacePart s part (Some a)) =
           Inr [ADbl (ANGLE_FACTOR * mod360 (part_angle part - angle (tapes s a) + 360))] \<and>
         0 \<le> mod360 (part_angle part - angle (tapes s a) + 360) \<and>
         mod360 (part_angle part - angle (tapes s a) + 360) < 360"
  using mod360_range [of "part_angle part - angle (tapes s a) + 360"]
  by (simp add: PlacePart_configured [OF assms(1)] emitted_def rotation_of_def
      fmod_nonneg [OF assms(2)])

text \<open>The example of the specification: a part at 30 degrees from a tape at 350 degrees
  is placed with the rotation \<open>40 * ANGLE_FACTOR\<close>.\<close>

theorem place_rotation_witness:
  "m_config (ex_ready ex_tape) = Some ex_config \<and>
   (0::real) \<le> part_angle ex_part - angle (tapes (ex_ready ex_tape) 1) + 360 \<and>
   part_angle ex_part = 30 \<and> angle (tapes (ex_ready ex_tape) 1) = 350 \<and>
   map_sum id (map rotation_of \<circ> emitted (ex_ready ex_tape))
     (PlacePart (ex_ready ex_tape) ex_part (Some 1)) = Inr [ADbl (ANGLE_FACTOR * 40)]"
proof -
  have c: "m_config (ex_ready ex_tape) = Some ex_config"
    by (simp add: ex_defs)
  have n: "0 \<le> part_angle ex_part - angle (tapes (ex_ready ex_tape) 1) + 360"
    by (simp add: ex_defs angle_def)
  show ?thesis
    using c n place_rotation [OF c n]
    by (simp add: ex_defs angle_def mod360_def)
qed

text \<open>The equation does not hold for every pair of angles: a part at 0 degrees from a
  tape at 400 degrees is placed with the rotation \<open>- 40 * ANGLE_FACTOR\<close>, where the
  modulus is 320.\<close>

theorem place_rotation_counterexample:
  "map_sum id (map rotation_of \<circ> emitted (ex_ready (ex_tape\<lparr>tape_angle := 400\<rparr>)))
     (PlacePart (ex_ready (ex_tape\<lparr>tape_angle := 400\<rparr>)) (ex_part\<lparr>part_angle := 0\<rparr>) (Some 1)) =
     Inr [ADbl (ANGLE_FACTOR * (- 40))] \<and>
   mod360 (0 - 400 + 360) = 320 \<and>
   ANGLE_FACTOR * (- 40) \<noteq> ANGLE_FACTOR * mod360 (0 - 400 + 360)"
  by (simp add: PlacePart_def Let_def emitted_def rotation_of_def ex_defs angle_def
      fmod_def trunc_def mod360_def ANGLE_FACTOR_def)

subsection \<open>Initialisation (C2)\<close>

text \<open>
  C2. \<open>Init\<close> returns false exactly when the configuration is absent, and then prints
  nothing on the standard output (the diagnostic goes to the error stream). With a
  configuration it prints the comment line and one setup block, whose height is the
  maximum of the board top and the heights of all the registered tapes, plus 10; with
  no tape registered that is the board top plus 10.
\<close>

theorem Init_clearance:
  "(fst (Init s config init_comment board_dim) \<longleftrightarrow> config \<noteq> None) \<and>
   Init s None init_comment board_dim =
     (False, s\<lparr>m_config := None,
               stderr := stderr s @ [(''Need configuration\<newline>'', [])]\<rparr>) \<and>
   stdout (snd (Init s None init_comment board_dim)) = stdout s \<and>
   emitted s (snd (Init s (Some c) init_comment board_dim)) =
     [(''; %s\<newline>'', [AStr init_comment]),
      (gcode_preamble,
       [ADbl (Max (insert (board_top (cfg_board c))
                 ((\<lambda>t. height (tapes s (snd t))) ` set (cfg_tape_for_component c))) + 10)])] \<and>
   emitted s (snd (Init s (Some (c\<lparr>cfg_tape_for_component := []\<rparr>)) init_comment board_dim)) =
     [(''; %s\<newline>'', [AStr init_comment]),
      (gcode_preamble, [ADbl (board_top (cfg_board c) + 10)])]"
  by (cases config) (simp_all add: Init_def Let_def emitted_def fold_max_Max)

subsection \<open>A pick from an exhausted tape (C3)\<close>

text \<open>
  C3, as amended. A pick whose tape is not null and is exhausted prints nothing on the
  standard output and appends one diagnostic to the error stream, which carries the
  footprint and the value of the part; nothing else in the state changes, the tape
  included. Whatever calls follow, they run as if the pick had not happened: same
  fault or same final state, the error stream apart.
\<close>

theorem PickPart_exhausted_skip:
  assumes "fst (GetPos (tapes s a)) = None"
  shows "PickPart s part (Some a) =
           Inr (s\<lparr>stderr := stderr s @
                  [(''We are out of components for %s %s\<newline>'',
                    [AStr (part_footprint part), AStr (part_value part)])]\<rparr>) \<and>
         map_sum id (emitted s) (PickPart s part (Some a)) = Inr [] \<and>
         (\<forall>cs. map_sum id silent (run s (OpPick part (Some a) # cs)) =
               map_sum id silent (run s cs))"
  by (simp add: PickPart_exhausted [OF assms] emitted_def run_stderr)

theorem PickPart_exhausted_skip_witness:
  "fst (GetPos (tapes (ex_ready (ex_tape\<lparr>tape_cursor := 2\<rparr>)) 1)) = None \<and>
   PickPart (ex_ready (ex_tape\<lparr>tape_cursor := 2\<rparr>)) ex_part (Some 1) =
     Inr ((ex_ready (ex_tape\<lparr>tape_cursor := 2\<rparr>))
            \<lparr>stderr := [(''We are out of components for %s %s\<newline>'',
                         [AStr ''0805'', AStr ''100n''])]\<rparr>) \<and>
   map_sum id silent
     (run (ex_ready (ex_tape\<lparr>tape_cursor := 2\<rparr>)) [OpPick ex_part (Some 1), OpFinish]) =
   map_sum id silent (run (ex_ready (ex_tape\<lparr>tape_cursor := 2\<rparr>)) [OpFinish])"
proof -
  have h: "fst (GetPos (tapes (ex_ready (ex_tape\<lparr>tape_cursor := 2\<rparr>)) 1)) = None"
    by (simp add: ex_defs GetPos_def)
  note t = PickPart_exhausted_skip [OF h, of ex_part]
  from t have "map_sum id silent
      (run (ex_ready (ex_tape\<lparr>tape_cursor := 2\<rparr>)) [OpPick ex_part (Some 1), OpFinish]) =
    map_sum id silent (run (ex_ready (ex_tape\<lparr>tape_cursor := 2\<rparr>)) [OpFinish])"
    by blast
  moreover from t have "PickPart (ex_ready (ex_tape\<lparr>tape_cursor := 2\<rparr>)) ex_part (Some 1) =
     Inr ((ex_ready (ex_tape\<lparr>tape_cursor := 2\<rparr>))
            \<lparr>stderr := [(''We are out of components for %s %s\<newline>'',
                         [AStr ''0805'', AStr ''100n''])]\<rparr>)"
    by (simp add: ex_defs)
  ultimately show ?thesis using h by blast
qed

text \<open>The diagnostic does not carry the component name: for the part \<open>C1\<close> it holds
  the footprint and the value only, and the part \<open>C2\<close> of the same footprint and value
  gives the same result.\<close>

theorem PickPart_exhausted_skip_counterexample:
  "map_sum id stderr (PickPart (ex_ready (ex_tape\<lparr>tape_cursor := 2\<rparr>)) ex_part (Some 1)) =
     Inr [(''We are out of components for %s %s\<newline>'', [AStr ''0805'', AStr ''100n''])] \<and>
   part_component_name ex_part = ''C1'' \<and>
   AStr ''C1'' \<notin> set [AStr ''0805'', AStr ''100n''] \<and>
   PickPart (ex_ready (ex_tape\<lparr>tape_cursor := 2\<rparr>))
     (ex_part\<lparr>part_component_name := ''C2''\<rparr>) (Some 1) =
   PickPart (ex_ready (ex_tape\<lparr>tape_cursor := 2\<rparr>)) ex_part (Some 1)"
  by (simp add: PickPart_def GetPos_def ex_defs)

subsection \<open>Normalisation of the emitted angles (C4)\<close>

text \<open>
  C4, as amended. The angle of a pick block is \<open>ANGLE_FACTOR * fmod(tape.angle, 360)\<close>
  and the angle of a place block is
  \<open>ANGLE_FACTOR * fmod(part.angle - tape.angle + 360, 360)\<close>. The remainder has the sign
  of its first argument: it lies strictly between -360 and 360 for every input, and in
  \<open>[0, 360)\<close> when that argument is not negative.
\<close>

theorem emitted_angle_range:
  assumes "m_config s = Some c"
  shows "(GetPos (tapes s a) = (Some p, t) \<longrightarrow>
            map_sum id (map rotation_of \<circ> emitted s) (PickPart s part (Some a)) =
              Inr [ADbl (ANGLE_FACTOR * fmod (angle (tapes s a)) 360)]) \<and>
         map_sum id (map rotation_of \<circ> emitted s) (PlacePart s part (Some a)) =
           Inr [ADbl (ANGLE_FACTOR * fmod (part_angle part - angle (tapes s a) + 360) 360)] \<and>
         - 360 < fmod (angle (tapes s a)) 360 \<and> fmod (angle (tapes s a)) 360 < 360 \<and>
         - 360 < fmod (part_angle part - angle (tapes s a) + 360) 360 \<and>
         fmod (part_angle part - angle (tapes s a) + 360) 360 < 360 \<and>
         (0 \<le> angle (tapes s a) \<longrightarrow> 0 \<le> fmod (angle (tapes s a)) 360) \<and>
         (0 \<le> part_angle part - angle (tapes s a) + 360 \<longrightarrow>
            0 \<le> fmod (part_angle part - angle (tapes s a) + 360) 360)"
proof -
  have pick: "map_sum id (map rotation_of \<circ> emitted s) (PickPart s part (Some a)) =
      Inr [ADbl (ANGLE_FACTOR * fmod (angle (tapes s a)) 360)]"
    if "GetPos (tapes s a) = (Some p, t)"
  proof -
    obtain px py where "p = (px, py)" by (cases p)
    with that have "GetPos (tapes s a) = (Some (px, py), t)" by simp
    from PickPart_success [OF this assms] show ?thesis
      by (simp add: emitted_def rotation_of_def)
  qed
  have place: "map_sum id (map rotation_of \<circ> emitted s) (PlacePart s part (Some a)) =
      Inr [ADbl (ANGLE_FACTOR * fmod (part_angle part - angle (tapes s a) + 360) 360)]"
    by (simp add: PlacePart_configured [OF assms] emitted_def rotation_of_def)
  have nonneg: "0 \<le> fmod x 360" if "0 \<le> x" for x
    using that mod360_range [of x] by (simp add: fmod_nonneg)
  show ?thesis
    using pick place fmod_bounds [of "angle (tapes s a)"]
      fmod_bounds [of "part_angle part - angle (tapes s a) + 360"] nonneg
    by blast
qed

theorem emitted_angle_range_witness:
  "m_config (ex_ready ex_tape) = Some ex_config \<and>
   GetPos (tapes (ex_ready ex_tape) 1) = (Some (100, 20), ex_tape\<lparr>tape_cursor := 1\<rparr>) \<and>
   (0::real) \<le> angle (tapes (ex_ready ex_tape) 1) \<and>
   (0::real) \<le> part_angle ex_part - angle (tapes (ex_ready ex_tape) 1) + 360 \<and>
   map_sum id (map rotation_of \<circ> emitted (ex_ready ex_tape))
     (PickPart (ex_ready ex_tape) ex_part (Some 1)) = Inr [ADbl (ANGLE_FACTOR * 350)] \<and>
   map_sum id (map rotation_of \<circ> emitted (ex_ready ex_tape))
     (PlacePart (ex_ready ex_tape) ex_part (Some 1)) = Inr [ADbl (ANGLE_FACTOR * 40)] \<and>
   fmod (angle (tapes (ex_ready ex_tape) 1)) 360 = 350 \<and>
   fmod (part_angle ex_part - angle (tapes (ex_ready ex_tape) 1) + 360) 360 = 40"
proof -
  have c: "m_config (ex_ready ex_tape) = Some ex_config"
    by (simp add: ex_defs)
  have g: "GetPos (tapes (ex_ready ex_tape) 1) = (Some (100, 20), ex_tape\<lparr>tape_cursor := 1\<rparr>)"
    by (simp add: ex_defs GetPos_def)
  have f1: "fmod (angle (tapes (ex_ready ex_tape) 1)) 360 = 350"
    by (simp add: ex_defs angle_def fmod_def trunc_def)
  have f2: "fmod (part_angle ex_part - angle (tapes (ex_ready ex_tape) 1) + 360) 360 = 40"
    by (simp add: ex_defs angle_def fmod_def trunc_def)
  have a1: "0 \<le> angle (tapes (ex_ready ex_tape) 1)"
    by (simp add: ex_defs angle_def)
  have a2: "0 \<le> part_angle ex_part - angle (tapes (ex_ready ex_tape) 1) + 360"
    by (simp add: ex_defs angle_def)
  show ?thesis
    using c g a1 a2 f1 f2
      emitted_angle_range [OF c, of 1 "(100, 20)" "ex_tape\<lparr>tape_cursor := 1\<rparr>" ex_part]
    by simp
qed

text \<open>A tape at -90 degrees is picked with the angle \<open>- 90 * ANGLE_FACTOR\<close>: the raw
  angle -90 is not in \<open>[0, 360)\<close>.\<close>

theorem emitted_angle_range_counterexample:
  "map_sum id (map rotation_of \<circ> emitted (ex_ready (ex_tape\<lparr>tape_angle := - 90\<rparr>)))
     (PickPart (ex_ready (ex_tape\<lparr>tape_angle := - 90\<rparr>)) ex_part (Some 1)) =
     Inr [ADbl (ANGLE_FACTOR * (- 90))] \<and>
   fmod (- 90) 360 = - 90 \<and> \<not> (0::real) \<le> - 90"
  by (simp add: PickPart_def GetPos_def Let_def emitted_def rotation_of_def ex_defs
      height_def angle_def fmod_def trunc_def)

subsection \<open>Heights of a pick (C5)\<close>

text \<open>
  C5. A successful pick (configuration stored, tape not exhausted) descends to
  \<open>tape.height\<close> and ascends to \<open>tape.height + (board.top - bed_level) + 10\<close>; when the
  tape height, the board thickness and the hover clearance are not negative, the ascend
  height is at least the descend height. A tape of height 5 over a board with top 6 and
  bed level 5 gives the travel height 16.
\<close>

theorem pick_travel_height:
  assumes "m_config s = Some c" and "GetPos (tapes s a) = (Some (px, py), t)"
  shows "map_sum id (emitted s) (PickPart s part (Some a)) =
           Inr [(gcode_pick,
                 [AStr (part_component_name part @ '' ('' @
                        part_footprint part @ ''@'' @ part_value part @ '')''),
                  AInt 60000,
                  ADbl px, ADbl py, ADbl (height (tapes s a) + 10),
                  ADbl (ANGLE_FACTOR * fmod (angle (tapes s a)) 360),
                  ADbl (height (tapes s a)),
                  ADbl (height (tapes s a) +
                        (board_top (cfg_board c) - cfg_bed_level c) + 10)])] \<and>
         (0 \<le> height (tapes s a) \<and> 0 \<le> board_top (cfg_board c) - cfg_bed_level c \<and>
          0 \<le> Z_HOVERING \<longrightarrow>
            height (tapes s a) \<le>
              height (tapes s a) + (board_top (cfg_board c) - cfg_bed_level c) + Z_HOVERING)"
  by (simp add: PickPart_success [OF assms(2) assms(1)] emitted_def)

theorem pick_travel_height_witness:
  "m_config (ex_ready ex_tape) = Some ex_config \<and>
   GetPos (tapes (ex_ready ex_tape) 1) = (Some (100, 20), ex_tape\<lparr>tape_cursor := 1\<rparr>) \<and>
   map_sum id (emitted (ex_ready ex_tape)) (PickPart (ex_ready ex_tape) ex_part (Some 1)) =
     Inr [(gcode_pick,
           [AStr ''C1 (0805@100n)'', AInt 60000, ADbl 100, ADbl 20, ADbl 15,
            ADbl (ANGLE_FACTOR * 350), ADbl 5, ADbl 16])] \<and>
   (0::real) \<le> 5 \<and> (0::real) \<le> 6 - 5 \<and> 0 \<le> Z_HOVERING \<and> (5::real) \<le> 16"
proof -
  have c: "m_config (ex_ready ex_tape) = Some ex_config"
    by (simp add: ex_defs)
  have g: "GetPos (tapes (ex_ready ex_tape) 1) = (Some (100, 20), ex_tape\<lparr>tape_cursor := 1\<rparr>)"
    by (simp add: ex_defs GetPos_def)
  show ?thesis
    using c g pick_travel_height [OF c g, of ex_part]
    by (simp add: ex_defs height_def angle_def fmod_def trunc_def Z_HOVERING_def)
qed

subsection \<open>Target of a dispense (C6)\<close>

text \<open>
  C6. With a configuration stored, \<open>Dispense\<close> moves to the board origin plus the part
  position plus the pad offset rotated by \<open>\<theta> = 2 * pi * part.angle / 360\<close>, that is
  \<open>x' = pad.x * cos \<theta> - pad.y * sin \<theta>\<close> and \<open>y' = pad.x * sin \<theta> + pad.y * cos \<theta>\<close>, and
  the rotated offset has the length of the pad offset.
\<close>

theorem Dispense_target:
  assumes "m_config s = Some c"
  shows "map_sum id (emitted s) (Dispense s part pad) =
           Inr [(gcode_dispense_move,
                 [AStr (part_component_name part), AStr (pad_name pad),
                  ADbl (pos_x (board_origin (cfg_board c)) + pos_x (part_pos part) +
                        (pos_x (pad_pos pad) * cos (2 * pi * part_angle part / 360) -
                         pos_y (pad_pos pad) * sin (2 * pi * part_angle part / 360))),
                  ADbl (pos_y (board_origin (cfg_board c)) + pos_y (part_pos part) +
                        (pos_x (pad_pos pad) * sin (2 * pi * part_angle part / 360) +
                         pos_y (pad_pos pad) * cos (2 * pi * part_angle part / 360))),
                  ADbl (board_top (cfg_board c) + 2)]),
                (gcode_dispense_paste,
                 [ADbl (board_top (cfg_board c) + 0.3),
                  ADbl (m_init_ms s +
                        dim_w (pad_size pad) * dim_h (pad_size pad) * m_area_ms s),
                  ADbl (dim_w (pad_size pad) * dim_h (pad_size pad)),
                  ADbl (board_top (cfg_board c) + 5)])] \<and>
         sqrt ((pos_x (pad_pos pad) * cos (2 * pi * part_angle part / 360) -
                pos_y (pad_pos pad) * sin (2 * pi * part_angle part / 360))\<^sup>2 +
               (pos_x (pad_pos pad) * sin (2 * pi * part_angle part / 360) +
                pos_y (pad_pos pad) * cos (2 * pi * part_angle part / 360))\<^sup>2) =
         sqrt ((pos_x (pad_pos pad))\<^sup>2 + (pos_y (pad_pos pad))\<^sup>2)"
proof -
  have rot: "(x * cos \<theta> - y * sin \<theta>)\<^sup>2 + (x * sin \<theta> + y * cos \<theta>)\<^sup>2 = x\<^sup>2 + y\<^sup>2"
    for x y \<theta> :: real
    by (simp add: power2_diff power2_sum power_mult_distrib sin_squared_eq algebra_simps)
  show ?thesis
    by (simp add: Dispense_configured [OF assms] emitted_def rot algebra_simps)
qed

theorem Dispense_target_witness:
  "m_config (ex_ready ex_tape) = Some ex_config \<and>
   map_sum id (emitted (ex_ready ex_tape))
     (Dispense (ex_ready ex_tape) (ex_part\<lparr>part_angle := 90\<rparr>) ex_pad) =
     Inr [(gcode_dispense_move, [AStr ''C1'', AStr ''1'', ADbl 13, ADbl 26, ADbl 8]),
          (gcode_dispense_paste, [ADbl 6.3, ADbl 100, ADbl 2, ADbl 11])]"
proof -
  have c: "m_config (ex_ready ex_tape) = Some ex_config"
    by (simp add: ex_defs)
  show ?thesis
    using c Dispense_target [OF c, of "ex_part\<lparr>part_angle := 90\<rparr>" ex_pad]
    by (simp add: ex_defs)
qed

subsection \<open>Which operations touch a tape (C7)\<close>

text \<open>
  C7. In every state, configured or not, \<open>Init\<close> (with or without a configuration),
  \<open>Finish\<close> and \<open>PickPart\<close> without a tape leave all the tapes as they were, and so do
  \<open>PlacePart\<close> and \<open>Dispense\<close> whenever they return. When \<open>PickPart\<close> on a non-null tape
  returns, every other tape is as it was and the tape it was given is as one
  next-position query leaves it: the cursor advanced by one when the query succeeds,
  the tape unchanged when it is exhausted. With a configuration stored all three
  operations return.
\<close>

theorem tape_mutations:
  "tapes (snd (Init s config init_comment board_dim)) = tapes s \<and>
   tapes (Finish s) = tapes s \<and>
   PickPart s part None = Inr s \<and>
   (PlacePart s part tape = Inr s1 \<longrightarrow> tapes s1 = tapes s) \<and>
   (Dispense s part pad = Inr s2 \<longrightarrow> tapes s2 = tapes s) \<and>
   (PickPart s part (Some a) = Inr s3 \<longrightarrow>
      tapes s3 = (tapes s)(a := snd (GetPos (tapes s a))) \<and>
      (\<forall>b. b \<noteq> a \<longrightarrow> tapes s3 b = tapes s b)) \<and>
   (m_config s = Some c \<longrightarrow>
      map_sum id tapes (PickPart s part (Some a)) =
        Inr ((tapes s)(a := snd (GetPos (tapes s a)))) \<and>
      map_sum id tapes (PlacePart s part tape) = Inr (tapes s) \<and>
      map_sum id tapes (Dispense s part pad) = Inr (tapes s)) \<and>
   (fst (GetPos (tapes s a)) \<noteq> None \<longrightarrow>
      snd (GetPos (tapes s a)) = (tapes s a)\<lparr>tape_cursor := tape_cursor (tapes s a) + 1\<rparr>) \<and>
   (fst (GetPos (tapes s a)) = None \<longrightarrow> snd (GetPos (tapes s a)) = tapes s a)"
proof -
  have init: "tapes (snd (Init s config init_comment board_dim)) = tapes s"
    by (cases config) (simp_all add: Init_def Let_def)
  have place: "tapes s1 = tapes s" if "PlacePart s part tape = Inr s1"
    using that by (auto simp add: PlacePart_def Let_def split: option.splits)
  have disp: "tapes s2 = tapes s" if "Dispense s part pad = Inr s2"
    using that by (auto simp add: Dispense_def Let_def split: option.splits)
  have pick: "tapes s3 = (tapes s)(a := snd (GetPos (tapes s a)))"
    if "PickPart s part (Some a) = Inr s3"
    using that by (auto simp add: PickPart_def Let_def split: option.splits prod.splits)
  have conf: "map_sum id tapes (PickPart s part (Some a)) =
        Inr ((tapes s)(a := snd (GetPos (tapes s a)))) \<and>
      map_sum id tapes (PlacePart s part tape) = Inr (tapes s) \<and>
      map_sum id tapes (Dispense s part pad) = Inr (tapes s)" if "m_config s = Some c"
    using that
    by (cases tape)
      (simp_all add: PickPart_def PlacePart_def Dispense_def Let_def
        split: prod.splits option.splits)
  have get: "(fst (GetPos (tapes s a)) \<noteq> None \<longrightarrow>
      snd (GetPos (tapes s a)) = (tapes s a)\<lparr>tape_cursor := tape_cursor (tapes s a) + 1\<rparr>) \<and>
   (fst (GetPos (tapes s a)) = None \<longrightarrow> snd (GetPos (tapes s a)) = tapes s a)"
    by (simp add: GetPos_def)
  have fin: "tapes (Finish s) = tapes s" "PickPart s part None = Inr s"
    by (simp_all add: Finish_def PickPart_def)
  from pick have pick': "PickPart s part (Some a) = Inr s3 \<longrightarrow>
      tapes s3 = (tapes s)(a := snd (GetPos (tapes s a))) \<and>
      (\<forall>b. b \<noteq> a \<longrightarrow> tapes s3 b = tapes s b)"
    by simp
  show ?thesis
    using init fin place disp pick' conf get by blast
qed

text \<open>The first \<open>Init\<close> on a new machine, a failed \<open>Init\<close>, and a place, a dispense and a
  pick on the small board.\<close>

theorem tape_mutations_witness:
  "tapes (snd (Init (ex_fresh ex_tape) (Some ex_config) ''run'' \<lparr>dim_w = 50, dim_h = 40\<rparr>)) =
     tapes (ex_fresh ex_tape) \<and>
   tapes (snd (Init (ex_fresh ex_tape) None ''run'' \<lparr>dim_w = 50, dim_h = 40\<rparr>)) =
     tapes (ex_fresh ex_tape) \<and>
   PlacePart (ex_ready ex_tape) ex_part (Some 1) =
     Inr ((ex_ready ex_tape)
       \<lparr>stdout := [(gcode_place,
          [AStr ''C1 (0805@100n)'', AInt 6000, ADbl 13, ADbl 24, ADbl 16,
           ADbl (ANGLE_FACTOR * 40), ADbl 6, ADbl 16])]\<rparr>) \<and>
   tapes ((ex_ready ex_tape)
       \<lparr>stdout := [(gcode_place,
          [AStr ''C1 (0805@100n)'', AInt 6000, ADbl 13, ADbl 24, ADbl 16,
           ADbl (ANGLE_FACTOR * 40), ADbl 6, ADbl 16])]\<rparr>) = tapes (ex_ready ex_tape) \<and>
   Dispense (ex_ready ex_tape) (ex_part\<lparr>part_angle := 90\<rparr>) ex_pad =
     Inr ((ex_ready ex_tape)
       \<lparr>stdout := [(gcode_dispense_move, [AStr ''C1'', AStr ''1'', ADbl 13, ADbl 26, ADbl 8]),
                   (gcode_dispense_paste, [ADbl 6.3, ADbl 100, ADbl 2, ADbl 11])]\<rparr>) \<and>
   tapes ((ex_ready ex_tape)
       \<lparr>stdout := [(gcode_dispense_move, [AStr ''C1'', AStr ''1'', ADbl 13, ADbl 26, ADbl 8]),
                   (gcode_dispense_paste, [ADbl 6.3, ADbl 100, ADbl 2, ADbl 11])]\<rparr>) =
     tapes (ex_ready ex_tape) \<and>
   PickPart (ex_ready ex_tape) ex_part (Some 1) =
     Inr ((ex_ready ex_tape)
       \<lparr>tapes := (\<lambda>a. ex_tape)(1 := ex_tape\<lparr>tape_cursor := 1\<rparr>),
        stdout := [(gcode_pick,
          [AStr ''C1 (0805@100n)'', AInt 60000, ADbl 100, ADbl 20, ADbl 15,
           ADbl (ANGLE_FACTOR * 350), ADbl 5, ADbl 16])]\<rparr>) \<and>
   m_config (ex_ready ex_tape) = Some ex_config \<and>
   fst (GetPos (tapes (ex_ready ex_tape) 1)) \<noteq> None \<and>
   snd (GetPos (tapes (ex_ready ex_tape) 1)) = ex_tape\<lparr>tape_cursor := 1\<rparr> \<and>
   map_sum id tapes (PickPart (ex_ready ex_tape) ex_part (Some 1)) =
     Inr ((\<lambda>a. ex_tape)(1 := ex_tape\<lparr>tape_cursor := 1\<rparr>)) \<and>
   (2::nat) \<noteq> 1 \<and>
   tapes ((ex_ready ex_tape)
       \<lparr>tapes := (\<lambda>a. ex_tape)(1 := ex_tape\<lparr>tape_cursor := 1\<rparr>),
        stdout := [(gcode_pick,
          [AStr ''C1 (0805@100n)'', AInt 60000, ADbl 100, ADbl 20, ADbl 15,
           ADbl (ANGLE_FACTOR * 350), ADbl 5, ADbl 16])]\<rparr>) 2 = tapes (ex_ready ex_tape) 2 \<and>
   fst (GetPos (tapes (ex_ready (ex_tape\<lparr>tape_cursor := 2\<rparr>)) 1)) = None \<and>
   map_sum id tapes (PickPart (ex_ready (ex_tape\<lparr>tape_cursor := 2\<rparr>)) ex_part (Some 1)) =
     Inr (\<lambda>a. ex_tape\<lparr>tape_cursor := 2\<rparr>)"
proof -
  let ?S = "ex_ready ex_tape"
  let ?X = "ex_ready (ex_tape\<lparr>tape_cursor := 2\<rparr>)"
  let ?S1 = "?S\<lparr>stdout := [(gcode_place,
          [AStr ''C1 (0805@100n)'', AInt 6000, ADbl 13, ADbl 24, ADbl 16,
           ADbl (ANGLE_FACTOR * 40), ADbl 6, ADbl 16])]\<rparr>"
  let ?S2 = "?S\<lparr>stdout := [(gcode_dispense_move, [AStr ''C1'', AStr ''1'', ADbl 13, ADbl 26, ADbl 8]),
                   (gcode_dispense_paste, [ADbl 6.3, ADbl 100, ADbl 2, ADbl 11])]\<rparr>"
  let ?S3 = "?S\<lparr>tapes := (\<lambda>a. ex_tape)(1 := ex_tape\<lparr>tape_cursor := 1\<rparr>),
        stdout := [(gcode_pick,
          [AStr ''C1 (0805@100n)'', AInt 60000, ADbl 100, ADbl 20, ADbl 15,
           ADbl (ANGLE_FACTOR * 350), ADbl 5, ADbl 16])]\<rparr>"
  have c: "m_config ?S = Some ex_config" and cx: "m_config ?X = Some ex_config"
    by (simp_all add: ex_defs)
  have g: "GetPos (tapes ?S 1) = (Some (100, 20), ex_tape\<lparr>tape_cursor := 1\<rparr>)"
    by (simp add: ex_defs GetPos_def)
  have gx: "GetPos (tapes ?X 1) = (None, ex_tape\<lparr>tape_cursor := 2\<rparr>)"
    by (simp add: ex_defs GetPos_def)
  have t: "tapes ?S = (\<lambda>a. ex_tape)" "tapes ?X = (\<lambda>a. ex_tape\<lparr>tape_cursor := 2\<rparr>)"
    by (simp_all add: ex_ready_def ex_fresh_def GCodeMachine_def)
  have p1: "PlacePart ?S ex_part (Some 1) = Inr ?S1"
    by (subst PlacePart_configured [OF c])
      (simp add: ex_defs height_def angle_def fmod_def trunc_def)
  have p2: "Dispense ?S (ex_part\<lparr>part_angle := 90\<rparr>) ex_pad = Inr ?S2"
    by (subst Dispense_configured [OF c]) (simp add: ex_defs)
  have p3: "PickPart ?S ex_part (Some 1) = Inr ?S3"
    by (subst PickPart_success [OF g c])
      (simp add: ex_defs height_def angle_def fmod_def trunc_def)
  note m = tape_mutations [where s = ?S and part = ex_part and tape = "Some 1" and a = 1
      and ?s1.0 = ?S1 and ?s3.0 = ?S3 and c = ex_config]
  note md = tape_mutations [where s = ?S and part = "ex_part\<lparr>part_angle := 90\<rparr>"
      and pad = ex_pad and ?s2.0 = ?S2]
  note mx = tape_mutations [where s = ?X and part = ex_part and a = 1 and c = ex_config]
  note mi = tape_mutations [where s = "ex_fresh ex_tape" and init_comment = "''run''"
      and board_dim = "\<lparr>dim_w = 50, dim_h = 40\<rparr>"]
  have i1: "tapes (snd (Init (ex_fresh ex_tape) (Some ex_config) ''run''
      \<lparr>dim_w = 50, dim_h = 40\<rparr>)) = tapes (ex_fresh ex_tape)"
    using mi [where config = "Some ex_config"] by blast
  have i2: "tapes (snd (Init (ex_fresh ex_tape) None ''run''
      \<lparr>dim_w = 50, dim_h = 40\<rparr>)) = tapes (ex_fresh ex_tape)"
    using mi [where config = None] by blast
  have a1: "tapes ?S1 = tapes ?S" using m p1 by blast
  have a2: "tapes ?S2 = tapes ?S" using md p2 by blast
  have a3: "map_sum id tapes (PickPart ?S ex_part (Some 1)) =
      Inr ((\<lambda>a. ex_tape)(1 := ex_tape\<lparr>tape_cursor := 1\<rparr>))"
    using m c g t by simp
  have a4: "map_sum id tapes (PickPart ?X ex_part (Some 1)) =
      Inr (\<lambda>a. ex_tape\<lparr>tape_cursor := 2\<rparr>)"
    using mx cx gx t by (simp add: fun_upd_idem_iff)
  have n: "(2::nat) \<noteq> 1" by simp
  have a5: "tapes ?S3 2 = tapes ?S 2" using m p3 n by blast
  show ?thesis
    using i1 i2 p1 a1 p2 a2 p3 c g gx a3 a4 a5 by simp
qed

subsection \<open>Access to the stored configuration (C8)\<close>

text \<open>
  C8. A new machine has no configuration. Without one, \<open>PickPart\<close> on a tape that is
  not null and not exhausted, \<open>PlacePart\<close> on a non-null tape and \<open>Dispense\<close> dereference
  the null pointer. \<open>Init\<close> with a configuration succeeds and stores it, and from a
  state with a stored configuration every sequence of pick, place, dispense and finish
  calls runs without a fault and keeps that configuration.
\<close>

theorem config_access:
  "m_config (GCodeMachine init_ms area_ms out err store) = None \<and>
   (m_config s = None \<and> GetPos (tapes s a) = (Some p, t) \<longrightarrow>
      PickPart s part (Some a) = Inl NullConfig) \<and>
   (m_config s = None \<longrightarrow>
      PlacePart s part (Some a) = Inl NullConfig \<and> Dispense s part pad = Inl NullConfig) \<and>
   (fst (Init s (Some c) init_comment board_dim) \<and>
    m_config (snd (Init s (Some c) init_comment board_dim)) = Some c) \<and>
   (m_config s = Some c \<longrightarrow> (\<forall>cs. map_sum id m_config (run s cs) = Inr (Some c)))"
proof -
  have "map_sum id m_config (run s cs) = Inr (Some c)" if "m_config s = Some c" for cs
    using run_configured [OF that, of cs] by auto
  moreover have "PickPart s part (Some a) = Inl NullConfig"
    if "m_config s = None" "GetPos (tapes s a) = (Some p, t)"
    using PickPart_unconfigured [OF that(2) that(1)] .
  ultimately show ?thesis
    by (simp add: GCodeMachine_def PlacePart_def Dispense_def Init_def Let_def)
qed

theorem config_access_witness:
  "m_config (ex_fresh ex_tape) = None \<and>
   GetPos (tapes (ex_fresh ex_tape) 1) = (Some (100, 20), ex_tape\<lparr>tape_cursor := 1\<rparr>) \<and>
   PickPart (ex_fresh ex_tape) ex_part (Some 1) = Inl NullConfig \<and>
   PlacePart (ex_fresh ex_tape) ex_part (Some 1) = Inl NullConfig \<and>
   Dispense (ex_fresh ex_tape) ex_part ex_pad = Inl NullConfig \<and>
   m_config (snd (Init (ex_fresh ex_tape) (Some ex_config) ''run'' \<lparr>dim_w = 50, dim_h = 40\<rparr>)) =
     Some ex_config \<and>
   map_sum id m_config
     (run (snd (Init (ex_fresh ex_tape) (Some ex_config) ''run'' \<lparr>dim_w = 50, dim_h = 40\<rparr>))
        [OpPick ex_part (Some 1), OpPlace ex_part (Some 1), OpDispense ex_part ex_pad, OpFinish]) =
     Inr (Some ex_config)"
proof -
  have n: "m_config (ex_fresh ex_tape) = None"
    by (simp add: ex_defs)
  have g: "GetPos (tapes (ex_fresh ex_tape) 1) = (Some (100, 20), ex_tape\<lparr>tape_cursor := 1\<rparr>)"
    by (simp add: ex_defs GetPos_def)
  note t1 = config_access [of _ _ _ _ _ "ex_fresh ex_tape" 1 "(100, 20)"
      "ex_tape\<lparr>tape_cursor := 1\<rparr>" ex_part ex_pad ex_config "''run''"
      "\<lparr>dim_w = 50, dim_h = 40\<rparr>"]
  note t2 = config_access [of _ _ _ _ _
      "snd (Init (ex_fresh ex_tape) (Some ex_config) ''run'' \<lparr>dim_w = 50, dim_h = 40\<rparr>)"
      1 "(100, 20)" "ex_tape\<lparr>tape_cursor := 1\<rparr>" ex_part ex_pad ex_config "''run''"
      "\<lparr>dim_w = 50, dim_h = 40\<rparr>"]
  from t1 have i: "m_config (snd (Init (ex_fresh ex_tape) (Some ex_config) ''run''
      \<lparr>dim_w = 50, dim_h = 40\<rparr>)) = Some ex_config"
    by blast
  from t2 i have "map_sum id m_config
     (run (snd (Init (ex_fresh ex_tape) (Some ex_config) ''run'' \<lparr>dim_w = 50, dim_h = 40\<rparr>))
        [OpPick ex_part (Some 1), OpPlace ex_part (Some 1), OpDispense ex_part ex_pad, OpFinish]) =
     Inr (Some ex_config)"
    by blast
  with t1 n g i show ?thesis by blast
qed

subsection \<open>The shutdown block (C9)\<close>

text \<open>
  C9. In every state \<open>Finish\<close> appends the same block to the standard output, and nothing
  else changes. The block holds two commands: \<^verbatim>\<open>G28 X0 Y0\<close>, which homes the X and Y
  axes and names no Z axis, and \<^verbatim>\<open>M84\<close>, which stops the motors.
\<close>

theorem Finish_fixed_block:
  "Finish s = s\<lparr>stdout := stdout s @ [(gcode_finish, [])]\<rparr> \<and>
   commands gcode_finish = [''G28 X0 Y0'', ''M84''] \<and>
   CHR ''Z'' \<notin> set (concat (commands gcode_finish))"
  by (simp add: Finish_def commands_def gcode_finish_def rstrip_def)

subsection \<open>Place and dispense are unconditional (C10)\<close>



end
